theory Spec2Isabelle
  imports Complex_Main
begin

section \<open>Numbers and host values\<close>

text \<open>
  A shallow embedding of the animated caret overlay: the shared base class
  \<open>CursorEffectPlugin\<close> (src/cursor-effect.ts), the comet effect \<open>CometCursorPlugin\<close>
  that extends it, and the blink effect \<open>BlinkCursorPlugin\<close> that extends it (the second
  module of src/comet-cursor.ts). The first module of src/comet-cursor.ts is an earlier,
  standalone comet plugin; its \<open>loop\<close> holds the same smoothing and trail statements as
  \<open>CometCursorPlugin.render\<close> and is not modelled a second time.

  The plugin computes with JavaScript numbers. They are modelled as real numbers: the
  arithmetic of the source (\<open>+\<close>, \<open>-\<close>, \<open>*\<close>, \<open>/\<close>, \<open>Math.abs\<close>, \<open>Math.floor\<close>,
  \<open>Math.ceil\<close>, \<open>Math.max\<close>, \<open>Math.hypot\<close>) is the exact one; IEEE rounding, infinities
  and NaN are left out. \<open>Date.now()\<close> is an integer number of milliseconds and is an
  \<open>int\<close>. Everything the code reads from the browser or from the editor (scroll offsets,
  the device pixel ratio, the clock, the handle \<open>requestAnimationFrame\<close> returns, what
  the read phase measures) is a parameter of the function that reads it. A method that
  assigns fields returns the updated state. Canvas drawing calls change no field; those
  of the blink effect are returned as a list, those of the comet effect are left out.
\<close>

definition hypot :: "real \<Rightarrow> real \<Rightarrow> real" where
  \<comment> \<open>\<open>Math.hypot(a, b)\<close>. On concrete inputs it is evaluated through \<open>hypot_zero_right\<close>.\<close>
  "hypot a b = sqrt (a\<^sup>2 + b\<^sup>2)"

definition js_rem :: "int \<Rightarrow> int \<Rightarrow> int" where
  \<comment> \<open>JavaScript's \<open>a % n\<close> on integers, for a positive \<open>n\<close>: the result has the sign of \<open>a\<close>.\<close>
  "js_rem a n = (if 0 \<le> a then a mod n else - ((- a) mod n))"

definition or_default :: "real \<Rightarrow> real \<Rightarrow> real" where
  \<comment> \<open>\<open>v || d\<close> on numbers: \<open>0\<close> is falsy.\<close>
  "or_default v d = (if v = 0 then d else v)"

record DOMRect =
  rect_left :: real
  rect_top :: real
  rect_width :: real
  rect_height :: real

text \<open>What \<open>view.coordsAtPos(head)\<close> returns when it is not null.\<close>

record CaretPos =
  pos_left :: real
  pos_top :: real
  pos_bottom :: real

record Coords =
  c_x :: real
  c_y :: real
  c_height :: real

record MeasureResult =
  m_rect :: "DOMRect option"
  m_coords :: "Coords option"
  m_hasFocus :: bool

datatype css_length = Percent real | Px real

text \<open>
  The overlay canvas: its backing store (\<open>canvas.width\<close>, \<open>canvas.height\<close>), its CSS
  display size (\<open>canvas.style.width\<close>, \<open>canvas.style.height\<close>) and its class name.
\<close>

record Canvas =
  cv_width :: int
  cv_height :: int
  style_width :: css_length
  style_height :: css_length
  className :: string

text \<open>The drawing context, as far as the plugin sets it: the current transform.\<close>

record Context2D =
  ctx_transform :: "real \<times> real \<times> real \<times> real \<times> real \<times> real"

definition createCanvas :: Canvas where
  \<comment> \<open>\<open>document.createElement("canvas")\<close> (a canvas element is 300 by 150 by default)
      followed by the \<open>Object.assign(this.canvas.style, ...)\<close> of \<open>enable\<close>.\<close>
  "createCanvas =
     \<lparr>cv_width = 300, cv_height = 150, style_width = Percent 100, style_height = Percent 100,
      className = ''''\<rparr>"

definition getContext :: Context2D where
  \<comment> \<open>\<open>canvas.getContext("2d")\<close>: a fresh context has the identity transform.\<close>
  "getContext = \<lparr>ctx_transform = (1, 0, 0, 1, 0, 0)\<rparr>"

section \<open>The shared base class \<open>CursorEffectPlugin\<close> (src/cursor-effect.ts)\<close>

text \<open>
  The fields of the class, followed by the part of the host the class writes to: the
  class list and the \<open>position\<close> style of \<open>view.dom\<close>, the number of overlay canvases
  appended to \<open>view.dom\<close>, and whether \<open>onScroll\<close> is registered on \<open>view.scrollDOM\<close>.
\<close>

record effect =
  canvas :: "Canvas option"
  ctx :: "Context2D option"
  animationFrameId :: nat
  measurePending :: bool
  needsResize :: bool
  initialized :: bool
  hasFocus :: bool
  targetX :: real
  targetY :: real
  currentX :: real
  currentY :: real
  currentHeight :: real
  lastScrollTop :: real
  lastScrollLeft :: real
  domClasses :: "string set"
  domPosition :: string
  overlays :: nat
  scrollListener :: bool

definition scheduleMeasure :: "'a effect_scheme \<Rightarrow> 'a effect_scheme" where
  \<comment> \<open>The request itself: the host runs the read phase and then the write phase later.\<close>
  "scheduleMeasure s = (if measurePending s then s else s\<lparr>measurePending := True\<rparr>)"

definition measure_read :: "'a effect_scheme \<Rightarrow> bool \<Rightarrow> DOMRect \<Rightarrow> CaretPos option \<Rightarrow> MeasureResult" where
  \<comment> \<open>The \<open>read\<close> callback of \<open>scheduleMeasure\<close>: \<open>focus\<close> is \<open>view.hasFocus\<close>, \<open>domRect\<close> is
      \<open>view.dom.getBoundingClientRect()\<close>, \<open>pos\<close> is \<open>view.coordsAtPos(head)\<close>.\<close>
  "measure_read s focus domRect pos =
     (let rect = (if needsResize s \<or> focus then Some domRect else None);
          coords =
            (if focus then
               (case pos of
                  None \<Rightarrow> None
                | Some p \<Rightarrow>
                    (case rect of
                       None \<Rightarrow> None
                     | Some r \<Rightarrow>
                         Some \<lparr>c_x = pos_left p - rect_left r,
                               c_y = pos_top p - rect_top r,
                               c_height = pos_bottom p - pos_top p\<rparr>))
             else None)
      in \<lparr>m_rect = rect, m_coords = coords, m_hasFocus = focus\<rparr>)"

definition resizeCanvas :: "real \<Rightarrow> DOMRect \<Rightarrow> 'a effect_scheme \<Rightarrow> 'a effect_scheme" where
  \<comment> \<open>\<open>devicePixelRatio\<close> is \<open>window.devicePixelRatio\<close>. Assigning \<open>canvas.width\<close> resets the
      context; \<open>setTransform\<close> then sets the transform, when there is a context.\<close>
  "resizeCanvas devicePixelRatio rect s =
     (case canvas s of
        None \<Rightarrow> s
      | Some cv \<Rightarrow>
          (let dpr = or_default devicePixelRatio 1;
               width = max 1 \<lfloor>rect_width rect * dpr\<rfloor>;
               height = max 1 \<lfloor>rect_height rect * dpr\<rfloor>
           in if cv_width cv = width \<and> cv_height cv = height then s
              else s\<lparr>canvas := Some (cv\<lparr>cv_width := width, cv_height := height,
                                         style_width := Px (rect_width rect),
                                         style_height := Px (rect_height rect)\<rparr>),
                     ctx := map_option (\<lambda>c. c\<lparr>ctx_transform := (dpr, 0, 0, dpr, 0, 0)\<rparr>) (ctx s)\<rparr>))"

definition measure_write :: "real \<Rightarrow> real \<Rightarrow> real \<Rightarrow> MeasureResult \<Rightarrow> 'a effect_scheme \<Rightarrow> 'a effect_scheme" where
  \<comment> \<open>The \<open>write\<close> callback of \<open>scheduleMeasure\<close>: \<open>scrollTop\<close> and \<open>scrollLeft\<close> are those of
      \<open>view.scrollDOM\<close> when it runs.\<close>
  "measure_write scrollTop scrollLeft devicePixelRatio m s =
     (let s1 = s\<lparr>measurePending := False, hasFocus := m_hasFocus m\<rparr>;
          s2 = (case m_rect m of
                  None \<Rightarrow> s1
                | Some r \<Rightarrow> (resizeCanvas devicePixelRatio r s1)\<lparr>needsResize := False\<rparr>)
      in case m_coords m of
           None \<Rightarrow> s2
         | Some c \<Rightarrow>
             (let s3 = s2\<lparr>targetX := c_x c, targetY := c_y c, currentHeight := c_height c\<rparr>
              in if \<not> initialized s3
                 then s3\<lparr>currentX := targetX s3, currentY := targetY s3, initialized := True,
                         lastScrollTop := scrollTop, lastScrollLeft := scrollLeft\<rparr>
                 else s3))"

definition onScroll ::
  "(real \<Rightarrow> real \<Rightarrow> 'a effect_scheme \<Rightarrow> 'a effect_scheme) \<Rightarrow> real \<Rightarrow> real \<Rightarrow> 'a effect_scheme \<Rightarrow> 'a effect_scheme" where
  \<comment> \<open>\<open>onScrollChange\<close> is the hook the subclass overrides.\<close>
  "onScroll onScrollChange scrollTop scrollLeft s =
     (if \<not> initialized s then s
      else
        (let dy = scrollTop - lastScrollTop s;
             dx = scrollLeft - lastScrollLeft s;
             s1 = s\<lparr>lastScrollTop := scrollTop, lastScrollLeft := scrollLeft\<rparr>;
             s2 = s1\<lparr>currentX := currentX s1 - dx, currentY := currentY s1 - dy,
                     targetX := targetX s1 - dx, targetY := targetY s1 - dy\<rparr>
         in onScrollChange dx dy s2))"

definition enable :: "nat \<Rightarrow> 'a effect_scheme \<Rightarrow> 'a effect_scheme" where
  \<comment> \<open>\<open>rafId\<close> is the handle \<open>requestAnimationFrame\<close> returns.\<close>
  "enable rafId s =
     (if canvas s \<noteq> None then s
      else
        (let s1 = s\<lparr>domClasses := insert ''animated-cursor-effect-enabled'' (domClasses s)\<rparr>;
             s2 = (if domPosition s1 = '''' then s1\<lparr>domPosition := ''relative''\<rparr> else s1);
             s3 = s2\<lparr>canvas := Some createCanvas\<rparr>;
             s4 = s3\<lparr>ctx := Some getContext\<rparr>;
             s5 = s4\<lparr>overlays := overlays s4 + 1\<rparr>;
             s6 = s5\<lparr>scrollListener := True\<rparr>;
             s7 = scheduleMeasure s6
         in s7\<lparr>animationFrameId := rafId\<rparr>))"

definition disable :: "'a effect_scheme \<Rightarrow> 'a effect_scheme" where
  "disable s =
     (let s1 = (if animationFrameId s \<noteq> 0 then s\<lparr>animationFrameId := 0\<rparr> else s);
          s2 = (if canvas s1 \<noteq> None
                then s1\<lparr>scrollListener := False, overlays := overlays s1 - 1,
                        canvas := None, ctx := None\<rparr>
                else s1)
      in s2\<lparr>domClasses := domClasses s2 - {''animated-cursor-effect-enabled''}\<rparr>)"

definition loop :: "('a effect_scheme \<Rightarrow> 'a effect_scheme) \<Rightarrow> nat \<Rightarrow> 'a effect_scheme \<Rightarrow> 'a effect_scheme" where
  \<comment> \<open>One animation frame: \<open>render\<close> is the subclass's, \<open>rafId\<close> the handle of the next
      frame request. Both branches of the focus test call \<open>render\<close>.\<close>
  "loop render rafId s =
     (if canvas s = None \<or> ctx s = None then s
      else (render s)\<lparr>animationFrameId := rafId\<rparr>)"

definition distanceToTarget :: "'a effect_scheme \<Rightarrow> real" where
  \<comment> \<open>\<open>Math.hypot(this.targetX - this.currentX, this.targetY - this.currentY)\<close>\<close>
  "distanceToTarget s = hypot (targetX s - currentX s) (targetY s - currentY s)"

section \<open>The comet effect \<open>CometCursorPlugin\<close> (src/unnamed/part_001)\<close>

text \<open>
  The module-level configuration object \<open>config\<close>. \<open>updateCometConfig\<close> can replace any of
  its fields at run time, so every function that reads it takes its current value as a
  parameter; \<open>config\<close> below is its initial value.
\<close>

record CometCursorConfig =
  enabled :: bool
  color :: string
  width :: real
  tailLength :: real
  smoothness :: real

definition config :: CometCursorConfig where
  "config = \<lparr>enabled = True, color = ''#00e5ff'', width = 2, tailLength = 12, smoothness = 0.2\<rparr>"

text \<open>
  The argument of \<open>updateCometConfig\<close>, a \<open>Partial<CometCursorConfig>\<close>: each field is
  present or absent. \<open>Object.assign(config, newConfig)\<close> overwrites the fields that are
  present and keeps the others.
\<close>

record PartialCometCursorConfig =
  p_enabled :: "bool option"
  p_color :: "string option"
  p_width :: "real option"
  p_tailLength :: "real option"
  p_smoothness :: "real option"

definition updateCometConfig :: "PartialCometCursorConfig \<Rightarrow> CometCursorConfig \<Rightarrow> CometCursorConfig" where
  \<comment> \<open>The second argument is the module-level \<open>config\<close> before the call, the result is
      \<open>config\<close> after it.\<close>
  "updateCometConfig newConfig cfg =
     cfg\<lparr>enabled := (case p_enabled newConfig of None \<Rightarrow> enabled cfg | Some v \<Rightarrow> v),
         color := (case p_color newConfig of None \<Rightarrow> color cfg | Some v \<Rightarrow> v),
         width := (case p_width newConfig of None \<Rightarrow> width cfg | Some v \<Rightarrow> v),
         tailLength := (case p_tailLength newConfig of None \<Rightarrow> tailLength cfg | Some v \<Rightarrow> v),
         smoothness := (case p_smoothness newConfig of None \<Rightarrow> smoothness cfg | Some v \<Rightarrow> v)\<rparr>"

definition COMET_CLASS :: string where
  "COMET_CLASS = ''comet-cursor-canvas''"

definition COMET_ENABLED_CLASS :: string where
  "COMET_ENABLED_CLASS = ''comet-cursor-enabled''"

text \<open>A trail point \<open>{x, y}\<close> is a pair.\<close>

record comet = effect +
  trail :: "(real \<times> real) list"

definition comet_enable :: "nat \<Rightarrow> comet \<Rightarrow> comet" where
  "comet_enable rafId s =
     (let s1 = enable rafId s
      in case canvas s1 of
           None \<Rightarrow> s1
         | Some cv \<Rightarrow>
             s1\<lparr>canvas := Some (cv\<lparr>className := COMET_CLASS\<rparr>),
                domClasses := insert COMET_ENABLED_CLASS (domClasses s1)\<rparr>)"

definition comet_disable :: "comet \<Rightarrow> comet" where
  "comet_disable s =
     (let s1 = disable s
      in s1\<lparr>domClasses := domClasses s1 - {COMET_ENABLED_CLASS}\<rparr>)"

definition comet_onScrollChange :: "real \<Rightarrow> real \<Rightarrow> comet \<Rightarrow> comet" where
  "comet_onScrollChange dx dy s = s\<lparr>trail := map (\<lambda>(x, y). (x - dx, y - dy)) (trail s)\<rparr>"

definition lerp :: "real \<Rightarrow> real \<Rightarrow> real \<Rightarrow> real" where
  "lerp start stop amt = (1 - amt) * start + amt * stop"

definition comet_advance :: "CometCursorConfig \<Rightarrow> comet \<Rightarrow> comet" where
  \<comment> \<open>The first two statements of \<open>render\<close>: the smoothing step on each axis.\<close>
  "comet_advance cfg s =
     (let s1 = (if \<bar>targetX s - currentX s\<bar> < 0.1 then s\<lparr>currentX := targetX s\<rparr>
                else s\<lparr>currentX := lerp (currentX s) (targetX s) (smoothness cfg)\<rparr>)
      in if \<bar>targetY s1 - currentY s1\<bar> < 0.1 then s1\<lparr>currentY := targetY s1\<rparr>
         else s1\<lparr>currentY := lerp (currentY s1) (targetY s1) (smoothness cfg)\<rparr>)"

definition comet_render :: "CometCursorConfig \<Rightarrow> comet \<Rightarrow> comet" where
  \<comment> \<open>\<open>drawTrail\<close> and \<open>drawHead\<close> only issue canvas drawing calls; they change no field
      and are left out.\<close>
  "comet_render cfg s =
     (let s1 = comet_advance cfg s;
          dist = distanceToTarget s1;
          isMoving = (dist > 0.2)
      in if isMoving then
           (let pushed = trail s1 @ [(currentX s1, currentY s1)]
            in if real (length pushed) > tailLength cfg then s1\<lparr>trail := tl pushed\<rparr>
               else s1\<lparr>trail := pushed\<rparr>)
         else s1\<lparr>trail := []\<rparr>)"

text \<open>
  What can happen to a comet instance once it is constructed: a call of
  \<open>updateCometConfig\<close>, an animation frame, a scroll event of \<open>view.scrollDOM\<close>, the write
  phase of a measurement. A run carries the module-level \<open>config\<close> along with the
  instance: a frame renders with the configuration in force when it runs.
\<close>

datatype comet_event =
  Configure PartialCometCursorConfig
| Tick nat
| Scroll real real
| Measured real real real MeasureResult

fun comet_step :: "CometCursorConfig \<times> comet \<Rightarrow> comet_event \<Rightarrow> CometCursorConfig \<times> comet" where
  "comet_step (cfg, s) (Configure newConfig) = (updateCometConfig newConfig cfg, s)"
| "comet_step (cfg, s) (Tick rafId) = (cfg, loop (comet_render cfg) rafId s)"
| "comet_step (cfg, s) (Scroll scrollTop scrollLeft) =
     (cfg, onScroll comet_onScrollChange scrollTop scrollLeft s)"
| "comet_step (cfg, s) (Measured scrollTop scrollLeft dpr m) =
     (cfg, measure_write scrollTop scrollLeft dpr m s)"

definition comet_run ::
  "CometCursorConfig \<Rightarrow> comet_event list \<Rightarrow> comet \<Rightarrow> CometCursorConfig \<times> comet" where
  \<comment> \<open>\<open>cfg\<close> is \<open>config\<close> at the start; the result is \<open>config\<close> and the instance at the end.\<close>
  "comet_run cfg evs s = foldl comet_step (cfg, s) evs"

definition new_comet :: "real \<Rightarrow> real \<Rightarrow> comet" where
  \<comment> \<open>The field initialisers of the two classes and the scroll baseline the constructor
      reads, for an editor whose DOM node has no class and no \<open>position\<close> style yet.\<close>
  "new_comet scrollTop scrollLeft =
     \<lparr>canvas = None, ctx = None, animationFrameId = 0, measurePending = False,
      needsResize = True, initialized = False, hasFocus = True,
      targetX = 0, targetY = 0, currentX = 0, currentY = 0, currentHeight = 0,
      lastScrollTop = scrollTop, lastScrollLeft = scrollLeft,
      domClasses = {}, domPosition = '''', overlays = 0, scrollListener = False,
      trail = []\<rparr>"

section \<open>The blink effect \<open>BlinkCursorPlugin\<close> (src/comet-cursor.ts, second module)\<close>

definition BLINK_CLASS :: string where
  "BLINK_CLASS = ''blink-cursor-canvas''"

definition BLINK_ENABLED_CLASS :: string where
  "BLINK_ENABLED_CLASS = ''blink-cursor-enabled''"

definition blinkInterval :: int where
  "blinkInterval = 530"

record Ghost =
  g_x :: real
  g_y :: real
  g_height :: real
  g_opacity :: real

record blink = effect +
  lastActivityTime :: int
  ghosts :: "Ghost list"
  lastX :: real
  lastY :: real

text \<open>A \<open>ctx.fillRect(x, y, w, h)\<close> call together with the \<open>globalAlpha\<close> it is drawn with.\<close>

datatype draw = FillRect (alpha: real) real real real real

definition blink_enable :: "int \<Rightarrow> nat \<Rightarrow> blink \<Rightarrow> blink" where
  \<comment> \<open>\<open>now\<close> is \<open>Date.now()\<close>.\<close>
  "blink_enable now rafId s =
     (let s1 = enable rafId s;
          s2 = (case canvas s1 of
                  None \<Rightarrow> s1
                | Some cv \<Rightarrow>
                    s1\<lparr>canvas := Some (cv\<lparr>className := BLINK_CLASS\<rparr>),
                       domClasses := insert BLINK_ENABLED_CLASS (domClasses s1)\<rparr>);
          s3 = s2\<lparr>lastActivityTime := now\<rparr>;
          s4 = s3\<lparr>lastX := currentX s3\<rparr>
      in s4\<lparr>lastY := currentY s4\<rparr>)"

definition blink_disable :: "blink \<Rightarrow> blink" where
  "blink_disable s =
     (let s1 = disable s;
          s2 = s1\<lparr>domClasses := domClasses s1 - {BLINK_ENABLED_CLASS}\<rparr>
      in s2\<lparr>ghosts := []\<rparr>)"

definition blink_onScrollChange :: "real \<Rightarrow> real \<Rightarrow> blink \<Rightarrow> blink" where
  "blink_onScrollChange dx dy s =
     (let s1 = s\<lparr>ghosts := map (\<lambda>g. g\<lparr>g_x := g_x g - dx, g_y := g_y g - dy\<rparr>) (ghosts s)\<rparr>;
          s2 = s1\<lparr>lastX := lastX s1 - dx\<rparr>
      in s2\<lparr>lastY := lastY s2 - dy\<rparr>)"

definition blink_lerp :: "real \<Rightarrow> real \<Rightarrow> real \<Rightarrow> real" where
  \<comment> \<open>The local \<open>lerp\<close> of \<open>render\<close>.\<close>
  "blink_lerp start stop factor = start + (stop - start) * factor"

definition blink_advance :: "blink \<Rightarrow> blink" where
  \<comment> \<open>The smoothing step of \<open>render\<close>.\<close>
  "blink_advance s =
     (let s1 = s\<lparr>currentX := blink_lerp (currentX s) (targetX s) 0.25\<rparr>
      in s1\<lparr>currentY := blink_lerp (currentY s1) (targetY s1) 0.25\<rparr>)"

definition spawn_ghosts :: "blink \<Rightarrow> blink" where
  \<comment> \<open>The ghost spawning block of \<open>render\<close>.\<close>
  "spawn_ghosts s =
     (let dx = currentX s - lastX s;
          dy = currentY s - lastY s;
          dist = hypot dx dy;
          spawnInterval = 1
      in if dist > spawnInterval then
           (let steps = \<lceil>dist / spawnInterval\<rceil>;
                spawned =
                  map (\<lambda>i. let t = real_of_int i / real_of_int steps
                           in \<lparr>g_x = lastX s + dx * t, g_y = lastY s + dy * t,
                               g_height = or_default (currentHeight s) 20, g_opacity = 0.4\<rparr>)
                      [1..steps]
            in s\<lparr>ghosts := ghosts s @ spawned, lastX := currentX s, lastY := currentY s\<rparr>)
         else s)"

fun fade_ghosts :: "nat \<Rightarrow> Ghost list \<Rightarrow> draw list \<Rightarrow> Ghost list \<times> draw list" where
  \<comment> \<open>The loop \<open>for (let i = this.ghosts.length - 1; i >= 0; i--)\<close>; the first argument
      is \<open>i + 1\<close>. \<open>splice(i, 1)\<close> removes the element at \<open>i\<close>.\<close>
  "fade_ghosts 0 gs ds = (gs, ds)"
| "fade_ghosts (Suc i) gs ds =
     (let g = (gs ! i)\<lparr>g_opacity := g_opacity (gs ! i) - 0.03\<rparr>
      in if g_opacity g \<le> 0 then fade_ghosts i (take i gs @ drop (Suc i) gs) ds
         else fade_ghosts i (gs[i := g])
                (ds @ [FillRect (g_opacity g) (g_x g) (g_y g) 4 (g_height g)]))"

definition main_opacity :: "int \<Rightarrow> int \<Rightarrow> real" where
  \<comment> \<open>The local \<open>opacity\<close> of \<open>render\<close>: \<open>now\<close> is \<open>Date.now()\<close>.\<close>
  "main_opacity now lastActivity =
     (let timeSinceActivity = now - lastActivity
      in if timeSinceActivity > 500 then
           (let phase = js_rem now (blinkInterval * 2)
            in if phase > blinkInterval then 0 else 0.6)
         else 0.6)"

definition blink_render :: "int \<Rightarrow> blink \<Rightarrow> blink \<times> draw list" where
  \<comment> \<open>\<open>render(ctx)\<close> for a drawing context that is not null, at clock time \<open>now\<close>. Returns
      the new state and the rectangles drawn, in drawing order.\<close>
  "blink_render now s =
     (let s1 = blink_advance s;
          s2 = spawn_ghosts s1;
          (gs, ds) = fade_ghosts (length (ghosts s2)) (ghosts s2) [];
          s3 = s2\<lparr>ghosts := gs\<rparr>;
          opacity = main_opacity now (lastActivityTime s3)
      in if opacity > 0
         then (s3, ds @ [FillRect opacity (currentX s3) (currentY s3) 4
                           (or_default (currentHeight s3) 20)])
         else (s3, ds))"

definition new_blink :: "real \<Rightarrow> real \<Rightarrow> blink" where
  \<comment> \<open>The field initialisers of the two classes and the scroll baseline the constructor
      reads, for an editor whose DOM node has no class and no \<open>position\<close> style yet.\<close>
  "new_blink scrollTop scrollLeft =
     \<lparr>canvas = None, ctx = None, animationFrameId = 0, measurePending = False,
      needsResize = True, initialized = False, hasFocus = True,
      targetX = 0, targetY = 0, currentX = 0, currentY = 0, currentHeight = 0,
      lastScrollTop = scrollTop, lastScrollLeft = scrollLeft,
      domClasses = {}, domPosition = '''', overlays = 0, scrollListener = False,
      lastActivityTime = 0, ghosts = [], lastX = 0, lastY = 0\<rparr>"

section \<open>Auxiliary facts\<close>

subsection \<open>\<open>Math.hypot\<close>\<close>

lemma hypot_zero_right: "hypot a 0 = \<bar>a\<bar>"
  by (simp add: hypot_def)

subsection \<open>What one render pass does to the caret position\<close>

lemma comet_advance_currentX:
  "currentX (comet_advance cfg s) =
     (if \<bar>targetX s - currentX s\<bar> < 0.1 then targetX s
      else currentX s * (1 - smoothness cfg) + targetX s * smoothness cfg)"
  by (simp add: comet_advance_def lerp_def Let_def mult.commute)

lemma comet_advance_currentY:
  "currentY (comet_advance cfg s) =
     (if \<bar>targetY s - currentY s\<bar> < 0.1 then targetY s
      else currentY s * (1 - smoothness cfg) + targetY s * smoothness cfg)"
  by (simp add: comet_advance_def lerp_def Let_def mult.commute)

lemma comet_advance_target:
  "targetX (comet_advance cfg s) = targetX s" "targetY (comet_advance cfg s) = targetY s"
  by (simp_all add: comet_advance_def Let_def)

lemma comet_advance_trail: "trail (comet_advance cfg s) = trail s"
  by (simp add: comet_advance_def Let_def)

lemma comet_render_current:
  "currentX (comet_render cfg s) = currentX (comet_advance cfg s)"
  "currentY (comet_render cfg s) = currentY (comet_advance cfg s)"
  "targetX (comet_render cfg s) = targetX s"
  "targetY (comet_render cfg s) = targetY s"
  by (simp_all add: comet_render_def Let_def comet_advance_target)

lemma blink_advance_current:
  "currentX (blink_advance b) = currentX b * (1 - 0.25) + targetX b * 0.25"
  "currentY (blink_advance b) = currentY b * (1 - 0.25) + targetY b * 0.25"
  "targetX (blink_advance b) = targetX b"
  "targetY (blink_advance b) = targetY b"
  by (simp_all add: blink_advance_def blink_lerp_def Let_def field_simps)

lemma spawn_ghosts_frame:
  "currentX (spawn_ghosts b) = currentX b" "currentY (spawn_ghosts b) = currentY b"
  "targetX (spawn_ghosts b) = targetX b" "targetY (spawn_ghosts b) = targetY b"
  "lastActivityTime (spawn_ghosts b) = lastActivityTime b"
  "currentHeight (spawn_ghosts b) = currentHeight b"
  by (simp_all add: spawn_ghosts_def Let_def)

lemma blink_render_state:
  "fst (blink_render now b) =
     (spawn_ghosts (blink_advance b))
       \<lparr>ghosts := fst (fade_ghosts (length (ghosts (spawn_ghosts (blink_advance b))))
                        (ghosts (spawn_ghosts (blink_advance b))) [])\<rparr>"
  by (simp add: blink_render_def Let_def split: prod.splits)

lemma blink_render_current:
  "currentX (fst (blink_render now b)) = currentX (blink_advance b)"
  "currentY (fst (blink_render now b)) = currentY (blink_advance b)"
  "targetX (fst (blink_render now b)) = targetX b"
  "targetY (fst (blink_render now b)) = targetY b"
  by (simp_all add: blink_render_state spawn_ghosts_frame blink_advance_current)

subsection \<open>What resizing leaves alone\<close>

lemma resizeCanvas_frame:
  "targetX (resizeCanvas d r s) = targetX s" "targetY (resizeCanvas d r s) = targetY s"
  "currentX (resizeCanvas d r s) = currentX s" "currentY (resizeCanvas d r s) = currentY s"
  "currentHeight (resizeCanvas d r s) = currentHeight s"
  "initialized (resizeCanvas d r s) = initialized s"
  "lastScrollTop (resizeCanvas d r s) = lastScrollTop s"
  "lastScrollLeft (resizeCanvas d r s) = lastScrollLeft s"
  "hasFocus (resizeCanvas d r s) = hasFocus s"
  "measurePending (resizeCanvas d r s) = measurePending s"
  "needsResize (resizeCanvas d r s) = needsResize s"
  by (simp_all add: resizeCanvas_def Let_def split: option.splits)

lemma resizeCanvas_flags:
  "canvas (resizeCanvas d r (s\<lparr>measurePending := p, hasFocus := f\<rparr>)) = canvas (resizeCanvas d r s)"
  "ctx (resizeCanvas d r (s\<lparr>measurePending := p, hasFocus := f\<rparr>)) = ctx (resizeCanvas d r s)"
  by (simp_all add: resizeCanvas_def Let_def split: option.splits)

lemma resizeCanvas_trail: "trail (resizeCanvas d r s) = trail s"
  by (simp add: resizeCanvas_def Let_def split: option.splits)

lemma measure_write_trail: "trail (measure_write st sl d m s) = trail s"
  by (simp add: measure_write_def Let_def resizeCanvas_trail split: option.splits)

subsection \<open>What the blink effect draws\<close>

lemma main_opacity_eq:
  "main_opacity now lastActivity =
     (if now - lastActivity > 500 \<and> js_rem now 1060 > 530 then 0 else 0.6)"
  by (simp add: main_opacity_def blinkInterval_def Let_def)

lemma blink_render_draws:
  "snd (blink_render now b) =
     snd (fade_ghosts (length (ghosts (spawn_ghosts (blink_advance b))))
            (ghosts (spawn_ghosts (blink_advance b))) [])
     @ (if main_opacity now (lastActivityTime b) > 0
        then [FillRect (main_opacity now (lastActivityTime b))
                (currentX (blink_advance b)) (currentY (blink_advance b)) 4
                (or_default (currentHeight b) 20)]
        else [])"
  by (simp add: blink_render_def Let_def spawn_ghosts_frame blink_advance_def split: prod.splits)

subsection \<open>Enabling and disabling\<close>

lemma enable_present: "canvas s \<noteq> None \<Longrightarrow> enable rafId s = s"
  by (simp add: enable_def)

lemma enable_canvas: "canvas (enable rafId s) \<noteq> None"
  by (simp add: enable_def Let_def scheduleMeasure_def)

lemma enable_overlays:
  "overlays (enable rafId s) = (if canvas s = None then overlays s + 1 else overlays s)"
  by (simp add: enable_def Let_def scheduleMeasure_def)

lemma disable_idem: "disable (disable s) = disable s"
  by (simp add: disable_def Let_def)

lemma comet_enable_present:
  "canvas c = Some cv \<Longrightarrow>
   comet_enable rafId c =
     c\<lparr>canvas := Some (cv\<lparr>className := COMET_CLASS\<rparr>),
       domClasses := insert COMET_ENABLED_CLASS (domClasses c)\<rparr>"
  by (simp add: comet_enable_def enable_present)

lemma comet_enable_canvas:
  "\<exists>cv. canvas (comet_enable rafId c) = Some cv \<and> className cv = COMET_CLASS"
  using enable_canvas [of rafId c]
  by (auto simp add: comet_enable_def Let_def split: option.splits)

lemma comet_enable_class: "COMET_ENABLED_CLASS \<in> domClasses (comet_enable rafId c)"
  using enable_canvas [of rafId c]
  by (auto simp add: comet_enable_def Let_def split: option.splits)

lemma comet_enable_idem: "comet_enable rafId' (comet_enable rafId c) = comet_enable rafId c"
proof -
  obtain cv where cv: "canvas (comet_enable rafId c) = Some cv" "className cv = COMET_CLASS"
    using comet_enable_canvas by blast
  have "cv\<lparr>className := COMET_CLASS\<rparr> = cv"
    using cv(2) by simp
  moreover have "insert COMET_ENABLED_CLASS (domClasses (comet_enable rafId c))
      = domClasses (comet_enable rafId c)"
    using comet_enable_class by (simp add: insert_absorb)
  ultimately show ?thesis
    using cv(1) by (simp add: comet_enable_present [OF cv(1)])
qed

lemma blink_enable_present:
  "canvas b = Some cv \<Longrightarrow>
   blink_enable now rafId b =
     b\<lparr>canvas := Some (cv\<lparr>className := BLINK_CLASS\<rparr>),
       domClasses := insert BLINK_ENABLED_CLASS (domClasses b),
       lastActivityTime := now, lastX := currentX b, lastY := currentY b\<rparr>"
  by (simp add: blink_enable_def enable_present)

lemma blink_enable_canvas:
  "\<exists>cv. canvas (blink_enable now rafId b) = Some cv \<and> className cv = BLINK_CLASS"
  using enable_canvas [of rafId b]
  by (auto simp add: blink_enable_def Let_def split: option.splits)

lemma blink_enable_class: "BLINK_ENABLED_CLASS \<in> domClasses (blink_enable now rafId b)"
  using enable_canvas [of rafId b]
  by (auto simp add: blink_enable_def Let_def split: option.splits)

lemma blink_enable_last:
  "lastX (blink_enable now rafId b) = currentX (blink_enable now rafId b)"
  "lastY (blink_enable now rafId b) = currentY (blink_enable now rafId b)"
  by (simp_all add: blink_enable_def Let_def split: option.splits)

lemma blink_enable_twice:
  "blink_enable now' rafId' (blink_enable now rafId b)
     = (blink_enable now rafId b)\<lparr>lastActivityTime := now'\<rparr>"
proof -
  obtain cv where cv: "canvas (blink_enable now rafId b) = Some cv" "className cv = BLINK_CLASS"
    using blink_enable_canvas by blast
  have "cv\<lparr>className := BLINK_CLASS\<rparr> = cv"
    using cv(2) by simp
  moreover have "insert BLINK_ENABLED_CLASS (domClasses (blink_enable now rafId b))
      = domClasses (blink_enable now rafId b)"
    using blink_enable_class by (simp add: insert_absorb)
  ultimately show ?thesis
    using cv(1) blink_enable_last [of now rafId b]
    by (simp add: blink_enable_present [OF cv(1)])
qed

lemma comet_disable_idem: "comet_disable (comet_disable c) = comet_disable c"
  by (simp add: comet_disable_def disable_idem Let_def disable_def)

lemma blink_disable_idem: "blink_disable (blink_disable b) = blink_disable b"
  by (simp add: blink_disable_def Let_def disable_def)

lemma disable_absent:
  "canvas s = None \<Longrightarrow> animationFrameId s = 0
   \<Longrightarrow> ''animated-cursor-effect-enabled'' \<notin> domClasses s \<Longrightarrow> disable s = s"
  by (simp add: disable_def Let_def)

lemma subclass_enable_overlays:
  "overlays (comet_enable rafId c) = overlays (enable rafId c)"
  "overlays (blink_enable now rafId b) = overlays (enable rafId b)"
  by (simp_all add: comet_enable_def blink_enable_def Let_def split: option.splits)

lemma subclass_enable_canvas:
  "canvas (comet_enable rafId c) \<noteq> None" "canvas (blink_enable now rafId b) \<noteq> None"
  using comet_enable_canvas [of rafId c] blink_enable_canvas [of now rafId b] by auto

subsection \<open>The comet trail\<close>

lemma hypot_mono: "\<bar>a\<bar> \<le> \<bar>a'\<bar> \<Longrightarrow> \<bar>b\<bar> \<le> \<bar>b'\<bar> \<Longrightarrow> hypot a b \<le> hypot a' b'"
proof -
  assume "\<bar>a\<bar> \<le> \<bar>a'\<bar>" and "\<bar>b\<bar> \<le> \<bar>b'\<bar>"
  then have "a\<^sup>2 \<le> a'\<^sup>2" and "b\<^sup>2 \<le> b'\<^sup>2"
    by (simp_all add: abs_le_square_iff)
  then show ?thesis
    by (simp add: hypot_def add_mono)
qed

lemma shrink_gap:
  fixes k d :: real
  assumes "0 \<le> k" and "k \<le> 1"
  shows "\<bar>(1 - k) * d\<bar> \<le> \<bar>d\<bar>"
proof -
  have "\<bar>(1 - k) * d\<bar> = (1 - k) * \<bar>d\<bar>"
    using assms by (simp add: abs_mult)
  also have "\<dots> \<le> 1 * \<bar>d\<bar>"
    using assms by (intro mult_right_mono) simp_all
  finally show ?thesis by simp
qed

lemma comet_advance_gap:
  assumes "0 \<le> smoothness cfg" and "smoothness cfg \<le> 1"
  shows "\<bar>targetX (comet_advance cfg s) - currentX (comet_advance cfg s)\<bar> \<le> \<bar>targetX s - currentX s\<bar>"
    and "\<bar>targetY (comet_advance cfg s) - currentY (comet_advance cfg s)\<bar> \<le> \<bar>targetY s - currentY s\<bar>"
proof -
  have x: "targetX s - (currentX s * (1 - smoothness cfg) + targetX s * smoothness cfg)
      = (1 - smoothness cfg) * (targetX s - currentX s)"
    by (simp add: algebra_simps)
  have y: "targetY s - (currentY s * (1 - smoothness cfg) + targetY s * smoothness cfg)
      = (1 - smoothness cfg) * (targetY s - currentY s)"
    by (simp add: algebra_simps)
  show "\<bar>targetX (comet_advance cfg s) - currentX (comet_advance cfg s)\<bar> \<le> \<bar>targetX s - currentX s\<bar>"
    unfolding comet_advance_target comet_advance_currentX
    using shrink_gap [OF assms, of "targetX s - currentX s"] x by simp
  show "\<bar>targetY (comet_advance cfg s) - currentY (comet_advance cfg s)\<bar> \<le> \<bar>targetY s - currentY s\<bar>"
    unfolding comet_advance_target comet_advance_currentY
    using shrink_gap [OF assms, of "targetY s - currentY s"] y by simp
qed

lemma comet_advance_distance:
  "0 \<le> smoothness cfg \<Longrightarrow> smoothness cfg \<le> 1
   \<Longrightarrow> distanceToTarget (comet_advance cfg s) \<le> distanceToTarget s"
  unfolding distanceToTarget_def
  by (rule hypot_mono) (simp_all add: comet_advance_gap)

lemma comet_render_trail:
  "trail (comet_render cfg s) =
     (if 0.2 < distanceToTarget (comet_advance cfg s) then
        (if tailLength cfg < real (length (trail s)) + 1
         then tl (trail s @ [(currentX (comet_advance cfg s), currentY (comet_advance cfg s))])
         else trail s @ [(currentX (comet_advance cfg s), currentY (comet_advance cfg s))])
      else [])"
  by (simp add: comet_render_def Let_def comet_advance_trail)

lemma comet_render_trail_le:
  "real (length (trail s)) \<le> tailLength cfg
   \<Longrightarrow> real (length (trail (comet_render cfg s))) \<le> tailLength cfg"
  by (simp add: comet_render_trail)

lemma comet_render_trail_max:
  "real (length (trail (comet_render cfg s))) \<le> max (real (length (trail s))) (tailLength cfg)"
  by (auto simp add: comet_render_trail le_max_iff_disj)

lemma updateCometConfig_tailLength:
  "tailLength (updateCometConfig newConfig cfg) =
     (case p_tailLength newConfig of None \<Rightarrow> tailLength cfg | Some v \<Rightarrow> v)"
  by (simp add: updateCometConfig_def)

lemma comet_step_trail_le:
  assumes "real (length (trail s)) \<le> tailLength cfg"
    and "\<forall>newConfig. ev = Configure newConfig \<longrightarrow> p_tailLength newConfig = None"
  shows "tailLength (fst (comet_step (cfg, s) ev)) = tailLength cfg
     \<and> real (length (trail (snd (comet_step (cfg, s) ev)))) \<le> tailLength cfg"
proof (cases ev)
  case (Configure newConfig)
  then show ?thesis
    using assms by (simp add: updateCometConfig_tailLength)
next
  case (Tick rafId)
  then show ?thesis
    using assms(1) comet_render_trail_le [of s cfg] by (simp add: loop_def)
next
  case (Scroll scrollTop scrollLeft)
  then show ?thesis
    using assms(1) by (simp add: onScroll_def comet_onScrollChange_def Let_def)
next
  case (Measured scrollTop scrollLeft dpr m)
  then show ?thesis
    using assms(1) by (simp add: measure_write_trail)
qed

lemma comet_run_trail_le:
  "real (length (trail s)) \<le> tailLength cfg
   \<Longrightarrow> \<forall>newConfig. Configure newConfig \<in> set evs \<longrightarrow> p_tailLength newConfig = None
   \<Longrightarrow> tailLength (fst (comet_run cfg evs s)) = tailLength cfg
       \<and> real (length (trail (snd (comet_run cfg evs s)))) \<le> tailLength cfg"
  unfolding comet_run_def
proof (induction evs arbitrary: cfg s)
  case Nil
  then show ?case by simp
next
  case (Cons ev evs)
  obtain cfg' s' where st: "comet_step (cfg, s) ev = (cfg', s')"
    by (cases "comet_step (cfg, s) ev")
  have ev: "\<forall>newConfig. ev = Configure newConfig \<longrightarrow> p_tailLength newConfig = None"
    using Cons.prems(2) by simp
  have step: "tailLength cfg' = tailLength cfg \<and> real (length (trail s')) \<le> tailLength cfg"
    using comet_step_trail_le [OF Cons.prems(1) ev] st by simp
  have rest: "\<forall>newConfig. Configure newConfig \<in> set evs \<longrightarrow> p_tailLength newConfig = None"
    using Cons.prems(2) by simp
  have "tailLength (fst (foldl comet_step (cfg', s') evs)) = tailLength cfg'
      \<and> real (length (trail (snd (foldl comet_step (cfg', s') evs)))) \<le> tailLength cfg'"
    using Cons.IH [of s' cfg'] step rest by simp
  then show ?case
    using st step by simp
qed

lemma comet_render_distance:
  "distanceToTarget (comet_render cfg s) = distanceToTarget (comet_advance cfg s)"
  by (simp add: distanceToTarget_def comet_render_current comet_advance_target)

lemma comet_render_excess:
  "tailLength cfg \<le> real (length (trail s)) \<Longrightarrow> 0.2 < distanceToTarget (comet_advance cfg s)
   \<Longrightarrow> length (trail (comet_render cfg s)) = length (trail s)"
  by (simp add: comet_render_trail)

lemma comet_render_clears:
  assumes "0 \<le> smoothness cfg" and "smoothness cfg \<le> 1" and "distanceToTarget s \<le> 0.2"
  shows "trail (comet_render cfg s) = []"
proof -
  have "distanceToTarget (comet_advance cfg s) \<le> distanceToTarget s"
    using assms(1,2) by (rule comet_advance_distance)
  with assms(3) have "\<not> 0.2 < distanceToTarget (comet_advance cfg s)"
    by simp
  then show ?thesis
    by (simp add: comet_render_trail)
qed

subsection \<open>The fading loop\<close>

lemma fade_ghosts_fst:
  "i \<le> length gs \<Longrightarrow>
   fst (fade_ghosts i gs ds) =
     filter (\<lambda>g. 0 < g_opacity g) (map (\<lambda>g. g\<lparr>g_opacity := g_opacity g - 0.03\<rparr>) (take i gs))
     @ drop i gs"
proof (induction i arbitrary: gs ds)
  case 0
  then show ?case by simp
next
  case (Suc i)
  then have i: "i < length gs" by simp
  let ?g = "(gs ! i)\<lparr>g_opacity := g_opacity (gs ! i) - 0.03\<rparr>"
  have tk: "take (Suc i) gs = take i gs @ [gs ! i]"
    using i by (simp add: take_Suc_conv_app_nth)
  show ?case
  proof (cases "g_opacity ?g \<le> 0")
    case True
    have len: "i \<le> length (take i gs @ drop (Suc i) gs)"
      using i by simp
    have "fst (fade_ghosts (Suc i) gs ds) = fst (fade_ghosts i (take i gs @ drop (Suc i) gs) ds)"
      using True by (simp add: Let_def)
    also have "\<dots> = filter (\<lambda>g. 0 < g_opacity g)
          (map (\<lambda>g. g\<lparr>g_opacity := g_opacity g - 0.03\<rparr>) (take i gs)) @ drop (Suc i) gs"
      using i Suc.IH [OF len, of ds] by (simp add: min_absorb2)
    finally show ?thesis
      using True by (simp add: tk)
  next
    case False
    have len: "i \<le> length (gs[i := ?g])"
      using i by simp
    have dr: "drop i (gs[i := ?g]) = ?g # drop (Suc i) gs"
      using i by (simp add: Cons_nth_drop_Suc [symmetric] upd_conv_take_nth_drop)
    have "fst (fade_ghosts (Suc i) gs ds)
        = fst (fade_ghosts i (gs[i := ?g])
                 (ds @ [FillRect (g_opacity ?g) (g_x ?g) (g_y ?g) 4 (g_height ?g)]))"
      using False by (simp add: Let_def)
    also have "\<dots> = filter (\<lambda>g. 0 < g_opacity g)
          (map (\<lambda>g. g\<lparr>g_opacity := g_opacity g - 0.03\<rparr>) (take i gs)) @ ?g # drop (Suc i) gs"
      using dr Suc.IH [OF len, of "ds @ [FillRect (g_opacity ?g) (g_x ?g) (g_y ?g) 4 (g_height ?g)]"]
      by simp
    finally show ?thesis
      using False by (simp add: tk)
  qed
qed

lemma fade_ghosts_all:
  "fst (fade_ghosts (length gs) gs ds) =
     filter (\<lambda>g. 0 < g_opacity g) (map (\<lambda>g. g\<lparr>g_opacity := g_opacity g - 0.03\<rparr>) gs)"
  by (simp add: fade_ghosts_fst)

lemma spawn_ghosts_append:
  "\<exists>spawned. ghosts (spawn_ghosts b) = ghosts b @ spawned \<and> (\<forall>g\<in>set spawned. g_opacity g = 0.4)"
  by (auto simp add: spawn_ghosts_def Let_def)

lemma blink_advance_ghosts: "ghosts (blink_advance b) = ghosts b"
  by (simp add: blink_advance_def Let_def)

lemma blink_render_ghosts:
  "ghosts (fst (blink_render now b)) =
     filter (\<lambda>g. 0 < g_opacity g)
       (map (\<lambda>g. g\<lparr>g_opacity := g_opacity g - 0.03\<rparr>) (ghosts (spawn_ghosts (blink_advance b))))"
  by (simp add: blink_render_state fade_ghosts_all)

lemma blink_onScroll_opacity:
  "map g_opacity (ghosts (onScroll blink_onScrollChange scrollTop scrollLeft b)) = map g_opacity (ghosts b)"
  by (simp add: onScroll_def blink_onScrollChange_def Let_def comp_def)

lemma measure_write_ghosts: "ghosts (measure_write st sl d m b) = ghosts b"
  by (simp add: measure_write_def resizeCanvas_def Let_def split: option.splits)

section \<open>The claims\<close>

text \<open>
  Claim C1, as the code has it. The smoothing step of the comet effect is the one the
  claim describes: on each axis on its own, \<open>current\<close> becomes \<open>target\<close> exactly when
  \<open>|target - current| < 0.1\<close> held before the step, and
  \<open>current * (1 - k) + target * k\<close> otherwise, with \<open>k\<close> the configured \<open>smoothness\<close>; the
  target is not touched. The smoothing step of the blink effect has no snap: on every
  pass and on each axis \<open>current\<close> becomes \<open>current * (1 - 0.25) + target * 0.25\<close>
  whatever the gap, so after the step \<open>current\<close> equals \<open>target\<close> only when it already
  did before.
\<close>

theorem smoothing_step:
  "currentX (comet_render cfg s) =
     (if \<bar>targetX s - currentX s\<bar> < 0.1 then targetX s
      else currentX s * (1 - smoothness cfg) + targetX s * smoothness cfg)
   \<and> currentY (comet_render cfg s) =
     (if \<bar>targetY s - currentY s\<bar> < 0.1 then targetY s
      else currentY s * (1 - smoothness cfg) + targetY s * smoothness cfg)
   \<and> targetX (comet_render cfg s) = targetX s
   \<and> targetY (comet_render cfg s) = targetY s
   \<and> currentX (fst (blink_render now b)) = currentX b * (1 - 0.25) + targetX b * 0.25
   \<and> currentY (fst (blink_render now b)) = currentY b * (1 - 0.25) + targetY b * 0.25
   \<and> targetX (fst (blink_render now b)) = targetX b
   \<and> targetY (fst (blink_render now b)) = targetY b
   \<and> (currentX (fst (blink_render now b)) = targetX b) = (currentX b = targetX b)
   \<and> (currentY (fst (blink_render now b)) = targetY b) = (currentY b = targetY b)"
proof -
  have x: "(currentX b * (1 - 0.25) + targetX b * 0.25 = targetX b) = (currentX b = targetX b)"
    by auto
  have y: "(currentY b * (1 - 0.25) + targetY b * 0.25 = targetY b) = (currentY b = targetY b)"
    by auto
  show ?thesis
    unfolding comet_render_current blink_render_current comet_advance_currentX
      comet_advance_currentY blink_advance_current
    using x y by simp
qed

text \<open>
  The step at a concrete input: a comet and a blink instance at \<open>(0, 0)\<close> with the target
  at \<open>(0.05, 10)\<close>. The comet snaps on the x axis and interpolates on the y axis with
  the default factor \<open>0.2\<close>; the blink effect interpolates on both.
\<close>

theorem smoothing_step_witness:
  "currentX (comet_render config ((new_comet 0 0)\<lparr>targetX := 0.05, targetY := 10\<rparr>)) = 0.05
   \<and> currentY (comet_render config ((new_comet 0 0)\<lparr>targetX := 0.05, targetY := 10\<rparr>)) = 2
   \<and> currentX (fst (blink_render 0 ((new_blink 0 0)\<lparr>targetX := 0.05, targetY := 10\<rparr>))) = 0.0125
   \<and> currentY (fst (blink_render 0 ((new_blink 0 0)\<lparr>targetX := 0.05, targetY := 10\<rparr>))) = 2.5"
  using smoothing_step [of config "(new_comet 0 0)\<lparr>targetX := 0.05, targetY := 10\<rparr>" 0
      "(new_blink 0 0)\<lparr>targetX := 0.05, targetY := 10\<rparr>"]
  by (simp add: new_comet_def new_blink_def config_def)

text \<open>
  Claim C1 as stated fails for the blink effect: with \<open>current = 0\<close> and \<open>target = 0.05\<close>
  on the x axis the gap is below \<open>0.1\<close>, and after one render pass \<open>current\<close> is
  \<open>0.0125\<close>, not the target.
\<close>

theorem smoothing_step_counterexample:
  "\<bar>targetX ((new_blink 0 0)\<lparr>targetX := 0.05\<rparr>) - currentX ((new_blink 0 0)\<lparr>targetX := 0.05\<rparr>)\<bar> < 0.1
   \<and> currentX (fst (blink_render 0 ((new_blink 0 0)\<lparr>targetX := 0.05\<rparr>))) = 0.0125
   \<and> currentX (fst (blink_render 0 ((new_blink 0 0)\<lparr>targetX := 0.05\<rparr>)))
       \<noteq> targetX ((new_blink 0 0)\<lparr>targetX := 0.05\<rparr>)"
  by (simp add: blink_render_current blink_advance_current new_blink_def)

text \<open>
  Claim C2. Once the instance is initialised, a scroll event subtracts the scroll delta
  \<open>(dx, dy)\<close> (the new scroll offsets minus the recorded baseline) from \<open>current\<close> and
  from \<open>target\<close> alike, so the distance between them is the same before and after, and
  subtracts the same delta from every buffered point: from every trail point of the
  comet effect, and from every ghost and the last spawn point of the blink effect. The
  new offsets become the baseline.
\<close>

theorem scroll_delta:
  fixes s :: comet and b :: blink
  assumes "initialized s" and "initialized b"
  shows
    "(let dx = scrollLeft - lastScrollLeft s; dy = scrollTop - lastScrollTop s;
          s' = onScroll comet_onScrollChange scrollTop scrollLeft s
      in currentX s' = currentX s - dx \<and> currentY s' = currentY s - dy
         \<and> targetX s' = targetX s - dx \<and> targetY s' = targetY s - dy
         \<and> distanceToTarget s' = distanceToTarget s
         \<and> trail s' = map (\<lambda>(x, y). (x - dx, y - dy)) (trail s)
         \<and> lastScrollTop s' = scrollTop \<and> lastScrollLeft s' = scrollLeft)
     \<and> (let dx = scrollLeft - lastScrollLeft b; dy = scrollTop - lastScrollTop b;
          b' = onScroll blink_onScrollChange scrollTop scrollLeft b
      in currentX b' = currentX b - dx \<and> currentY b' = currentY b - dy
         \<and> targetX b' = targetX b - dx \<and> targetY b' = targetY b - dy
         \<and> distanceToTarget b' = distanceToTarget b
         \<and> ghosts b' = map (\<lambda>g. g\<lparr>g_x := g_x g - dx, g_y := g_y g - dy\<rparr>) (ghosts b)
         \<and> lastX b' = lastX b - dx \<and> lastY b' = lastY b - dy
         \<and> lastScrollTop b' = scrollTop \<and> lastScrollLeft b' = scrollLeft)"
  using assms
  by (simp add: onScroll_def comet_onScrollChange_def blink_onScrollChange_def
      distanceToTarget_def Let_def)

text \<open>
  An initialised comet and an initialised blink instance at \<open>(3, 4)\<close> with the target at
  \<open>(30, 40)\<close> and baseline \<open>(0, 0)\<close>, scrolled to \<open>scrollTop = 7\<close>, \<open>scrollLeft = 5\<close>.
\<close>

theorem scroll_delta_witness:
  "(let s = (new_comet 0 0)\<lparr>initialized := True, currentX := 3, currentY := 4, targetX := 30,
               targetY := 40, trail := [(1, 2), (3, 4)]\<rparr>;
        s' = onScroll comet_onScrollChange 7 5 s
    in initialized s \<and> currentX s' = -2 \<and> currentY s' = -3 \<and> targetX s' = 25 \<and> targetY s' = 33
       \<and> distanceToTarget s' = distanceToTarget s \<and> trail s' = [(-4, -5), (-2, -3)])
   \<and> (let b = (new_blink 0 0)\<lparr>initialized := True, currentX := 3, currentY := 4, targetX := 30,
               targetY := 40, ghosts := [\<lparr>g_x = 1, g_y = 2, g_height = 20, g_opacity = 0.4\<rparr>]\<rparr>;
        b' = onScroll blink_onScrollChange 7 5 b
    in initialized b \<and> currentX b' = -2 \<and> currentY b' = -3 \<and> targetX b' = 25 \<and> targetY b' = 33
       \<and> distanceToTarget b' = distanceToTarget b
       \<and> ghosts b' = [\<lparr>g_x = -4, g_y = -5, g_height = 20, g_opacity = 0.4\<rparr>]
       \<and> lastX b' = -5 \<and> lastY b' = -7)"
  using scroll_delta [of "(new_comet 0 0)\<lparr>initialized := True, currentX := 3, currentY := 4, targetX := 30,
               targetY := 40, trail := [(1, 2), (3, 4)]\<rparr>"
          "(new_blink 0 0)\<lparr>initialized := True, currentX := 3, currentY := 4, targetX := 30,
               targetY := 40, ghosts := [\<lparr>g_x = 1, g_y = 2, g_height = 20, g_opacity = 0.4\<rparr>]\<rparr>" 5 7]
  by (simp add: new_comet_def new_blink_def Let_def)

text \<open>
  Claim C3. In the write phase of a measurement that carries caret coordinates: when the
  instance is not initialised yet, \<open>current\<close> is set to the sampled target exactly, the
  initialisation flag is set and the scroll offsets of that moment become the scroll
  baseline; when it is initialised already, target and height are updated and \<open>current\<close>
  and the baseline stay as they were. A measurement without coordinates changes none of
  the flag, \<open>current\<close> and the baseline, so only the first successful sample
  initialises.
\<close>

theorem initialization_snap:
  "(m_coords m = Some c \<and> \<not> initialized s \<longrightarrow>
      (let s' = measure_write scrollTop scrollLeft dpr m s
       in currentX s' = c_x c \<and> currentY s' = c_y c
          \<and> targetX s' = c_x c \<and> targetY s' = c_y c \<and> currentHeight s' = c_height c
          \<and> initialized s'
          \<and> lastScrollTop s' = scrollTop \<and> lastScrollLeft s' = scrollLeft))
   \<and> (m_coords m = Some c \<and> initialized s \<longrightarrow>
      (let s' = measure_write scrollTop scrollLeft dpr m s
       in targetX s' = c_x c \<and> targetY s' = c_y c \<and> currentHeight s' = c_height c
          \<and> currentX s' = currentX s \<and> currentY s' = currentY s
          \<and> initialized s'
          \<and> lastScrollTop s' = lastScrollTop s \<and> lastScrollLeft s' = lastScrollLeft s))
   \<and> (m_coords m = None \<longrightarrow>
      (let s' = measure_write scrollTop scrollLeft dpr m s
       in initialized s' = initialized s
          \<and> currentX s' = currentX s \<and> currentY s' = currentY s
          \<and> lastScrollTop s' = lastScrollTop s \<and> lastScrollLeft s' = lastScrollLeft s))"
  by (simp add: measure_write_def Let_def resizeCanvas_frame split: option.splits)

text \<open>
  The scenario of the specification: a fresh instance, a first sample with target
  \<open>(100, 50)\<close> and height \<open>20\<close> while the editor is scrolled to \<open>(7, 3)\<close>; then a
  second sample \<open>(200, 80)\<close> with height \<open>18\<close> at scroll offsets \<open>(9, 9)\<close>; and a
  sample without coordinates on a fresh instance.
\<close>

theorem initialization_snap_witness:
  "(let m = \<lparr>m_rect = None, m_coords = Some \<lparr>c_x = 100, c_y = 50, c_height = 20\<rparr>, m_hasFocus = True\<rparr>;
        s' = measure_write 7 3 2 m (new_comet 0 0)
    in \<not> initialized (new_comet 0 0) \<and> currentX s' = 100 \<and> currentY s' = 50 \<and> targetX s' = 100
       \<and> targetY s' = 50 \<and> currentHeight s' = 20 \<and> initialized s'
       \<and> lastScrollTop s' = 7 \<and> lastScrollLeft s' = 3)
   \<and> (let m = \<lparr>m_rect = None, m_coords = Some \<lparr>c_x = 200, c_y = 80, c_height = 18\<rparr>, m_hasFocus = True\<rparr>;
        s = (new_comet 7 3)\<lparr>initialized := True, currentX := 100, currentY := 50\<rparr>;
        s' = measure_write 9 9 2 m s
    in initialized s \<and> targetX s' = 200 \<and> targetY s' = 80 \<and> currentHeight s' = 18
       \<and> currentX s' = 100 \<and> currentY s' = 50 \<and> lastScrollTop s' = 7 \<and> lastScrollLeft s' = 3)
   \<and> (let m = \<lparr>m_rect = None, m_coords = None, m_hasFocus = False\<rparr>;
        s' = measure_write 9 9 2 m (new_comet 0 0)
    in \<not> initialized s' \<and> currentX s' = 0 \<and> lastScrollTop s' = 0)"
  using initialization_snap [of "\<lparr>m_rect = None, m_coords = Some \<lparr>c_x = 100, c_y = 50, c_height = 20\<rparr>, m_hasFocus = True\<rparr>"
          "\<lparr>c_x = 100, c_y = 50, c_height = 20\<rparr>" "new_comet 0 0" 7 3 2]
        initialization_snap [of "\<lparr>m_rect = None, m_coords = Some \<lparr>c_x = 200, c_y = 80, c_height = 18\<rparr>, m_hasFocus = True\<rparr>"
          "\<lparr>c_x = 200, c_y = 80, c_height = 18\<rparr>" "(new_comet 7 3)\<lparr>initialized := True, currentX := 100, currentY := 50\<rparr>" 9 9 2]
        initialization_snap [of "\<lparr>m_rect = None, m_coords = None, m_hasFocus = False\<rparr>"
          "\<lparr>c_x = 0, c_y = 0, c_height = 0\<rparr>" "new_comet 0 0" 9 9 2]
  by (simp add: new_comet_def Let_def)

text \<open>
  Claim C4 does not hold on the code. A render pass pushes one point and removes at most
  one (\<open>if (this.trail.length > config.tailLength) this.trail.shift()\<close>), and it reads the
  module-level \<open>config\<close>, which \<open>updateCometConfig\<close> can change between two frames. The
  run below is one the plugin can go through: an instance constructed with the default
  configuration (\<open>tailLength = 12\<close>) gets its first caret sample at \<open>(10, 50)\<close> and a second
  one at \<open>(100, 50)\<close>; three animation frames put three points into the trail; then
  \<open>updateCometConfig({ tailLength: 1 })\<close> lowers the maximum; the next frame pushes a
  fourth point and removes one. The trail then holds three points while the configured
  maximum is \<open>1\<close>. (What does hold is in the lemmas above: \<open>comet_run_trail_le\<close> keeps the
  bound over every run that leaves \<open>tailLength\<close> alone, \<open>comet_render_trail\<close> gives the
  buffer after a pass, with the oldest point dropped on overflow and the buffer emptied
  when the distance is at most \<open>0.2\<close>, and \<open>comet_render_excess\<close> shows that a buffer above
  the maximum keeps its length as long as the caret moves.)
\<close>

theorem comet_trail_exceeds_after_reconfigure:
  "trail (snd (comet_run config
      [Measured 0 0 1
         \<lparr>m_rect = Some \<lparr>rect_left = 0, rect_top = 0, rect_width = 300, rect_height = 150\<rparr>,
          m_coords = Some \<lparr>c_x = 10, c_y = 50, c_height = 20\<rparr>, m_hasFocus = True\<rparr>,
       Measured 0 0 1
         \<lparr>m_rect = Some \<lparr>rect_left = 0, rect_top = 0, rect_width = 300, rect_height = 150\<rparr>,
          m_coords = Some \<lparr>c_x = 100, c_y = 50, c_height = 20\<rparr>, m_hasFocus = True\<rparr>,
       Tick 2, Tick 3, Tick 4]
      (comet_enable 1 (new_comet 0 0))))
     = [(28, 50), (42.4, 50), (53.92, 50)]
   \<and> tailLength (fst (comet_run config
      [Measured 0 0 1
         \<lparr>m_rect = Some \<lparr>rect_left = 0, rect_top = 0, rect_width = 300, rect_height = 150\<rparr>,
          m_coords = Some \<lparr>c_x = 10, c_y = 50, c_height = 20\<rparr>, m_hasFocus = True\<rparr>,
       Measured 0 0 1
         \<lparr>m_rect = Some \<lparr>rect_left = 0, rect_top = 0, rect_width = 300, rect_height = 150\<rparr>,
          m_coords = Some \<lparr>c_x = 100, c_y = 50, c_height = 20\<rparr>, m_hasFocus = True\<rparr>,
       Tick 2, Tick 3, Tick 4,
       Configure \<lparr>p_enabled = None, p_color = None, p_width = None, p_tailLength = Some 1,
                  p_smoothness = None\<rparr>,
       Tick 5]
      (comet_enable 1 (new_comet 0 0)))) = 1
   \<and> trail (snd (comet_run config
      [Measured 0 0 1
         \<lparr>m_rect = Some \<lparr>rect_left = 0, rect_top = 0, rect_width = 300, rect_height = 150\<rparr>,
          m_coords = Some \<lparr>c_x = 10, c_y = 50, c_height = 20\<rparr>, m_hasFocus = True\<rparr>,
       Measured 0 0 1
         \<lparr>m_rect = Some \<lparr>rect_left = 0, rect_top = 0, rect_width = 300, rect_height = 150\<rparr>,
          m_coords = Some \<lparr>c_x = 100, c_y = 50, c_height = 20\<rparr>, m_hasFocus = True\<rparr>,
       Tick 2, Tick 3, Tick 4,
       Configure \<lparr>p_enabled = None, p_color = None, p_width = None, p_tailLength = Some 1,
                  p_smoothness = None\<rparr>,
       Tick 5]
      (comet_enable 1 (new_comet 0 0))))
     = [(42.4, 50), (53.92, 50), (63.136, 50)]"
  by (simp add: comet_run_def loop_def comet_render_def comet_advance_def lerp_def
      distanceToTarget_def hypot_zero_right comet_enable_def enable_def scheduleMeasure_def
      measure_write_def resizeCanvas_def or_default_def createCanvas_def getContext_def
      updateCometConfig_def new_comet_def config_def Let_def)

text \<open>
  Claim C5. After a render pass of the blink effect the ghost buffer holds, in their
  order, the ghosts it held before followed by the ghosts spawned in this pass (each
  spawned with opacity \<open>0.4\<close>), every one with its opacity lowered by \<open>0.03\<close> and nothing
  else changed, without those whose lowered opacity is \<open>0\<close> or less. So a ghost's opacity
  goes down by \<open>0.03\<close> in every pass it survives, no ghost with opacity \<open>0\<close> or less is
  left after a pass, and when the opacities were at most \<open>0.4\<close> before they are at most
  \<open>0.37\<close> after. A scroll event and the write phase of a measurement leave every
  opacity as it is.
\<close>

theorem ghost_fading:
  "(\<exists>spawned. (\<forall>g\<in>set spawned. g_opacity g = 0.4)
      \<and> ghosts (fst (blink_render now b)) =
          filter (\<lambda>g. 0 < g_opacity g)
            (map (\<lambda>g. g\<lparr>g_opacity := g_opacity g - 0.03\<rparr>) (ghosts b @ spawned)))
   \<and> (\<forall>g\<in>set (ghosts (fst (blink_render now b))). 0 < g_opacity g)
   \<and> ((\<forall>g\<in>set (ghosts b). g_opacity g \<le> 0.4) \<longrightarrow>
        (\<forall>g\<in>set (ghosts (fst (blink_render now b))). g_opacity g \<le> 0.4 - 0.03))
   \<and> map g_opacity (ghosts (onScroll blink_onScrollChange scrollTop scrollLeft b))
       = map g_opacity (ghosts b)
   \<and> ghosts (measure_write scrollTop scrollLeft dpr m b) = ghosts b"
proof -
  obtain spawned where sp: "ghosts (spawn_ghosts (blink_advance b)) = ghosts b @ spawned"
      "\<forall>g\<in>set spawned. g_opacity g = 0.4"
    using spawn_ghosts_append [of "blink_advance b"] by (auto simp add: blink_advance_ghosts)
  have eq: "ghosts (fst (blink_render now b)) =
      filter (\<lambda>g. 0 < g_opacity g)
        (map (\<lambda>g. g\<lparr>g_opacity := g_opacity g - 0.03\<rparr>) (ghosts b @ spawned))"
    by (simp add: blink_render_ghosts sp(1))
  have pos: "\<forall>g\<in>set (ghosts (fst (blink_render now b))). 0 < g_opacity g"
    by (simp add: blink_render_ghosts)
  have bound: "(\<forall>g\<in>set (ghosts b). g_opacity g \<le> 0.4) \<longrightarrow>
        (\<forall>g\<in>set (ghosts (fst (blink_render now b))). g_opacity g \<le> 0.4 - 0.03)"
    using sp(2) by (auto simp add: eq)
  show ?thesis
    using sp(2) eq pos bound blink_onScroll_opacity [of scrollTop scrollLeft b]
      measure_write_ghosts [of scrollTop scrollLeft dpr m b]
    by blast
qed

text \<open>
  A resting caret with two ghosts of opacity \<open>0.4\<close> and \<open>0.02\<close>: the first fades to
  \<open>0.37\<close>, the second is removed. A caret at \<open>(0, 0)\<close> with the target at \<open>(16, 0)\<close>: it
  moves to \<open>x = 4\<close>, four ghosts are spawned one pixel apart and fade to \<open>0.37\<close>.
\<close>

theorem ghost_fading_witness:
  "list_all (\<lambda>g. g_opacity g \<le> 0.4)
     (ghosts ((new_blink 0 0)\<lparr>ghosts := [\<lparr>g_x = 1, g_y = 2, g_height = 20, g_opacity = 0.4\<rparr>,
                                         \<lparr>g_x = 3, g_y = 4, g_height = 20, g_opacity = 0.02\<rparr>]\<rparr>))
   \<and> ghosts (fst (blink_render 0
        ((new_blink 0 0)\<lparr>ghosts := [\<lparr>g_x = 1, g_y = 2, g_height = 20, g_opacity = 0.4\<rparr>,
                                     \<lparr>g_x = 3, g_y = 4, g_height = 20, g_opacity = 0.02\<rparr>]\<rparr>)))
       = [\<lparr>g_x = 1, g_y = 2, g_height = 20, g_opacity = 0.37\<rparr>]
   \<and> list_all (\<lambda>g. 0 < g_opacity g \<and> g_opacity g \<le> 0.37)
        (ghosts (fst (blink_render 0
          ((new_blink 0 0)\<lparr>ghosts := [\<lparr>g_x = 1, g_y = 2, g_height = 20, g_opacity = 0.4\<rparr>,
                                       \<lparr>g_x = 3, g_y = 4, g_height = 20, g_opacity = 0.02\<rparr>]\<rparr>))))
   \<and> ghosts (fst (blink_render 0 ((new_blink 0 0)\<lparr>targetX := 16\<rparr>)))
       = [\<lparr>g_x = 1, g_y = 0, g_height = 20, g_opacity = 0.37\<rparr>,
          \<lparr>g_x = 2, g_y = 0, g_height = 20, g_opacity = 0.37\<rparr>,
          \<lparr>g_x = 3, g_y = 0, g_height = 20, g_opacity = 0.37\<rparr>,
          \<lparr>g_x = 4, g_y = 0, g_height = 20, g_opacity = 0.37\<rparr>]"
proof -
  let ?b = "(new_blink 0 0)\<lparr>ghosts := [\<lparr>g_x = 1, g_y = 2, g_height = 20, g_opacity = 0.4\<rparr>,
                                         \<lparr>g_x = 3, g_y = 4, g_height = 20, g_opacity = 0.02\<rparr>]\<rparr>"
  have h: "\<forall>g\<in>set (ghosts ?b). g_opacity g \<le> 0.4"
    by (simp add: new_blink_def)
  have a: "list_all (\<lambda>g. g_opacity g \<le> 0.4) (ghosts ?b)"
    using h by (simp add: list_all_iff)
  have e: "ghosts (fst (blink_render 0 ?b)) = [\<lparr>g_x = 1, g_y = 2, g_height = 20, g_opacity = 0.37\<rparr>]"
    by (simp add: blink_render_ghosts new_blink_def blink_advance_def blink_lerp_def
        spawn_ghosts_def hypot_def Let_def)
  have r: "\<forall>g\<in>set (ghosts (fst (blink_render 0 ?b))). 0 < g_opacity g \<and> g_opacity g \<le> 0.37"
    using h ghost_fading [where b = ?b and now = 0] by auto
  have l: "list_all (\<lambda>g. 0 < g_opacity g \<and> g_opacity g \<le> 0.37) (ghosts (fst (blink_render 0 ?b)))"
    using r by (simp only: list_all_iff)
  have u: "[1..4] = [1, 2, 3, 4 :: int]"
    by code_simp
  have s: "ghosts (fst (blink_render 0 ((new_blink 0 0)\<lparr>targetX := 16\<rparr>)))
       = [\<lparr>g_x = 1, g_y = 0, g_height = 20, g_opacity = 0.37\<rparr>,
          \<lparr>g_x = 2, g_y = 0, g_height = 20, g_opacity = 0.37\<rparr>,
          \<lparr>g_x = 3, g_y = 0, g_height = 20, g_opacity = 0.37\<rparr>,
          \<lparr>g_x = 4, g_y = 0, g_height = 20, g_opacity = 0.37\<rparr>]"
    using u
    by (simp add: blink_render_ghosts new_blink_def blink_advance_def blink_lerp_def
        spawn_ghosts_def hypot_zero_right or_default_def Let_def)
  show ?thesis
    using a e l s by blast
qed

text \<open>
  Claim C6. \<open>main_opacity now lastActivity\<close> is the opacity \<open>render\<close> computes for the main
  caret at clock time \<open>now\<close>. While the time since the last activity is at most 500 ms
  it is the fixed value \<open>0.6\<close>. Beyond 500 ms, at a clock time \<open>now\<close> that is not
  negative, it is \<open>0\<close> when \<open>now mod 1060 > 530\<close> and \<open>0.6\<close>, the opacity the caret is
  drawn with whenever it is visible, otherwise. The phase depends on the clock only:
  two idle instances with different last activity times have the same opacity at the
  same clock time. The main caret is the last rectangle drawn, with this opacity as its
  alpha, and it is not drawn at all when the opacity is \<open>0\<close>.
\<close>

theorem idle_blinking:
  "(now - lastActivity \<le> 500 \<longrightarrow> main_opacity now lastActivity = 0.6)
   \<and> (500 < now - lastActivity \<and> 0 \<le> now \<longrightarrow>
        main_opacity now lastActivity = (if now mod 1060 > 530 then 0 else 0.6))
   \<and> (500 < now - lastActivity \<and> 500 < now - lastActivity' \<longrightarrow>
        main_opacity now lastActivity = main_opacity now lastActivity')
   \<and> snd (blink_render now b) =
        snd (fade_ghosts (length (ghosts (spawn_ghosts (blink_advance b))))
               (ghosts (spawn_ghosts (blink_advance b))) [])
        @ (if main_opacity now (lastActivityTime b) > 0
           then [FillRect (main_opacity now (lastActivityTime b))
                   (currentX (fst (blink_render now b))) (currentY (fst (blink_render now b))) 4
                   (or_default (currentHeight b) 20)]
           else [])"
  unfolding blink_render_draws blink_render_current
  by (simp add: main_opacity_eq js_rem_def)

text \<open>
  With the last activity at time \<open>0\<close>: active at \<open>400\<close>, hidden at \<open>600\<close>
  (\<open>600 mod 1060 = 600\<close>), visible at \<open>1100\<close> (\<open>1100 mod 1060 = 40\<close>). With the last
  activity at \<open>1000\<close>: visible when idling starts at \<open>1501\<close> and hidden at \<open>1600\<close>, as
  for the instance idle since \<open>0\<close>.
\<close>

theorem idle_blinking_witness:
  "main_opacity 400 0 = 0.6 \<and> main_opacity 600 0 = 0 \<and> main_opacity 1100 0 = 0.6
   \<and> main_opacity 1501 1000 = 0.6 \<and> main_opacity 1600 1000 = 0 \<and> main_opacity 1600 0 = 0
   \<and> snd (blink_render 600 (new_blink 0 0)) = []
   \<and> snd (blink_render 1100 (new_blink 0 0)) = [FillRect 0.6 0 0 4 20]"
proof -
  have m: "main_opacity 400 0 = 0.6" "main_opacity 600 0 = 0" "main_opacity 1100 0 = 0.6"
    "main_opacity 1501 1000 = 0.6" "main_opacity 1600 1000 = 0" "main_opacity 1600 0 = 0"
    using idle_blinking [of 400 0 0 "new_blink 0 0"] idle_blinking [of 600 0 0 "new_blink 0 0"]
      idle_blinking [of 1100 0 0 "new_blink 0 0"] idle_blinking [of 1501 1000 0 "new_blink 0 0"]
      idle_blinking [of 1600 1000 0 "new_blink 0 0"] idle_blinking [of 1600 0 1000 "new_blink 0 0"]
    by simp_all
  have g: "ghosts (spawn_ghosts (blink_advance (new_blink 0 0))) = []"
    by (simp add: new_blink_def blink_advance_def blink_lerp_def spawn_ghosts_def hypot_def Let_def)
  have l: "lastActivityTime (new_blink 0 0) = 0" "currentHeight (new_blink 0 0) = 0"
    "currentX (blink_advance (new_blink 0 0)) = 0" "currentY (blink_advance (new_blink 0 0)) = 0"
    by (simp_all add: new_blink_def blink_advance_def blink_lerp_def Let_def)
  show ?thesis
    by (simp add: m blink_render_draws g l or_default_def)
qed

text \<open>
  Claim C7, as the code has it. Calling \<open>enable\<close> of the base class when the canvas
  exists returns the state as it is, and after two calls in a row on an instance without
  overlay exactly one overlay canvas is attached, for the base class and for both
  effects. For the comet effect the second of two calls in a row changes nothing at
  all. The \<open>enable\<close> of the blink effect assigns \<open>lastActivityTime\<close>, \<open>lastX\<close> and \<open>lastY\<close>
  after the call of the base method whether or not the canvas existed: with a canvas
  present it changes these three fields (and sets the class names, which a blink
  instance has already) and nothing else, and the second of two calls in a row changes
  the last activity time only. \<open>disable\<close> applied to a disabled instance changes
  nothing: it is idempotent for the base class and for both effects, and it is the
  identity on a state without canvas, frame request and marker class.
\<close>

theorem lifecycle_idempotence:
  fixes s :: "'a effect_scheme" and c :: comet and b :: blink
  shows
  "(canvas s \<noteq> None \<longrightarrow> enable rafId s = s)
   \<and> (canvas s = None \<and> overlays s = 0 \<longrightarrow> overlays (enable rafId' (enable rafId s)) = 1)
   \<and> comet_enable rafId' (comet_enable rafId c) = comet_enable rafId c
   \<and> (canvas c = None \<and> overlays c = 0 \<longrightarrow>
        overlays (comet_enable rafId' (comet_enable rafId c)) = 1)
   \<and> blink_enable now' rafId' (blink_enable now rafId b)
       = (blink_enable now rafId b)\<lparr>lastActivityTime := now'\<rparr>
   \<and> (canvas b = None \<and> overlays b = 0 \<longrightarrow>
        overlays (blink_enable now' rafId' (blink_enable now rafId b)) = 1)
   \<and> (canvas b = Some cv \<longrightarrow>
        blink_enable now rafId b =
          b\<lparr>canvas := Some (cv\<lparr>className := BLINK_CLASS\<rparr>),
            domClasses := insert BLINK_ENABLED_CLASS (domClasses b),
            lastActivityTime := now, lastX := currentX b, lastY := currentY b\<rparr>)
   \<and> disable (disable s) = disable s
   \<and> (canvas s = None \<and> animationFrameId s = 0
        \<and> ''animated-cursor-effect-enabled'' \<notin> domClasses s \<longrightarrow> disable s = s)
   \<and> comet_disable (comet_disable c) = comet_disable c
   \<and> blink_disable (blink_disable b) = blink_disable b"
proof -
  have e: "canvas s = None \<and> overlays s = 0 \<longrightarrow> overlays (enable rafId' (enable rafId s)) = 1"
    by (simp add: enable_present enable_canvas enable_overlays)
  have ce: "canvas c = None \<and> overlays c = 0 \<longrightarrow>
        overlays (comet_enable rafId' (comet_enable rafId c)) = 1"
    by (simp add: comet_enable_idem subclass_enable_overlays enable_overlays)
  have be: "canvas b = None \<and> overlays b = 0 \<longrightarrow>
        overlays (blink_enable now' rafId' (blink_enable now rafId b)) = 1"
    by (simp add: blink_enable_twice subclass_enable_overlays enable_overlays)
  show ?thesis
    using e ce be
    by (simp add: enable_present comet_enable_idem blink_enable_twice blink_enable_present
        disable_idem disable_absent comet_disable_idem blink_disable_idem)
qed

text \<open>
  A fresh comet and a fresh blink instance, enabled twice; and \<open>disable\<close> on the fresh,
  never enabled comet instance.
\<close>

theorem lifecycle_idempotence_witness:
  "canvas (new_comet 0 0) = None \<and> overlays (new_comet 0 0) = 0
   \<and> canvas (enable 1 (new_comet 0 0)) \<noteq> None
   \<and> enable 2 (enable 1 (new_comet 0 0)) = enable 1 (new_comet 0 0)
   \<and> overlays (enable 2 (enable 1 (new_comet 0 0))) = 1
   \<and> overlays (comet_enable 2 (comet_enable 1 (new_comet 0 0))) = 1
   \<and> canvas (new_blink 0 0) = None \<and> overlays (new_blink 0 0) = 0
   \<and> overlays (blink_enable 1000 2 (blink_enable 0 1 (new_blink 0 0))) = 1
   \<and> animationFrameId (new_comet 0 0) = 0
   \<and> ''animated-cursor-effect-enabled'' \<notin> domClasses (new_comet 0 0)
   \<and> disable (new_comet 0 0) = new_comet 0 0"
proof -
  have c: "canvas (new_comet 0 0) = None \<and> overlays (new_comet 0 0) = 0"
    "animationFrameId (new_comet 0 0) = 0"
    "''animated-cursor-effect-enabled'' \<notin> domClasses (new_comet 0 0)"
    by (simp_all add: new_comet_def)
  have b: "canvas (new_blink 0 0) = None \<and> overlays (new_blink 0 0) = 0"
    by (simp add: new_blink_def)
  have p: "canvas (enable 1 (new_comet 0 0)) \<noteq> None"
    by (rule enable_canvas)
  show ?thesis
    using c b p
      lifecycle_idempotence [where s = "new_comet 0 0" and c = "new_comet 0 0"
        and b = "new_blink 0 0" and rafId = 1 and rafId' = 2 and now = 0 and now' = 1000
        and cv = createCanvas]
      lifecycle_idempotence [where s = "enable 1 (new_comet 0 0)" and c = "new_comet 0 0"
        and b = "new_blink 0 0" and rafId = 2 and rafId' = 2 and now = 0 and now' = 1000
        and cv = createCanvas]
    by auto
qed

text \<open>
  Claim C7 as stated fails for the blink effect: a blink instance enabled at time \<open>0\<close>
  has its canvas, and calling \<open>enable\<close> again at time \<open>1000\<close> changes its last activity
  time, so the call is not a no-op.
\<close>

theorem lifecycle_idempotence_counterexample:
  "canvas (blink_enable 0 1 (new_blink 0 0)) \<noteq> None
   \<and> lastActivityTime (blink_enable 0 1 (new_blink 0 0)) = 0
   \<and> lastActivityTime (blink_enable 1000 2 (blink_enable 0 1 (new_blink 0 0))) = 1000
   \<and> blink_enable 1000 2 (blink_enable 0 1 (new_blink 0 0)) \<noteq> blink_enable 0 1 (new_blink 0 0)"
proof -
  have a: "lastActivityTime (blink_enable 0 1 (new_blink 0 0)) = 0"
    by (simp add: blink_enable_def Let_def split: option.splits)
  have b: "lastActivityTime (blink_enable 1000 2 (blink_enable 0 1 (new_blink 0 0))) = 1000"
    by (simp add: blink_enable_twice)
  have "blink_enable 1000 2 (blink_enable 0 1 (new_blink 0 0)) \<noteq> blink_enable 0 1 (new_blink 0 0)"
  proof
    assume "blink_enable 1000 2 (blink_enable 0 1 (new_blink 0 0)) = blink_enable 0 1 (new_blink 0 0)"
    then have "lastActivityTime (blink_enable 1000 2 (blink_enable 0 1 (new_blink 0 0)))
        = lastActivityTime (blink_enable 0 1 (new_blink 0 0))"
      by simp
    then show False using a b by simp
  qed
  then show ?thesis
    using a b subclass_enable_canvas(2) [of 0 1 "new_blink 0 0"] by simp
qed

text \<open>
  Claim C8. The read phase yields no coordinates when \<open>coordsAtPos\<close> returns null and
  when the editor has no focus. The write phase of a measurement without coordinates
  leaves the target, the caret height and the initialisation flag (and \<open>current\<close> and the
  scroll baseline) as they were; it still stores the sampled focus state, clears the
  pending flag, and, when a rectangle was sampled, resizes the canvas and clears the
  resize flag. The write phase has no failing branch: it is a total function of the
  measurement and the state.
\<close>

theorem missing_coords_skipped:
  "m_coords (measure_read s focus domRect None) = None
   \<and> m_coords (measure_read s False domRect pos) = None
   \<and> (m_coords m = None \<longrightarrow>
        (let s' = measure_write scrollTop scrollLeft dpr m s
         in targetX s' = targetX s \<and> targetY s' = targetY s
            \<and> currentHeight s' = currentHeight s
            \<and> initialized s' = initialized s
            \<and> currentX s' = currentX s \<and> currentY s' = currentY s
            \<and> lastScrollTop s' = lastScrollTop s \<and> lastScrollLeft s' = lastScrollLeft s
            \<and> hasFocus s' = m_hasFocus m
            \<and> \<not> measurePending s'
            \<and> (case m_rect m of
                  None \<Rightarrow> canvas s' = canvas s \<and> ctx s' = ctx s \<and> needsResize s' = needsResize s
                | Some r \<Rightarrow> canvas s' = canvas (resizeCanvas dpr r s)
                            \<and> ctx s' = ctx (resizeCanvas dpr r s) \<and> \<not> needsResize s')))"
  by (simp add: measure_read_def measure_write_def Let_def resizeCanvas_frame resizeCanvas_flags
      split: option.splits)

text \<open>
  A focused editor whose caret has no coordinates (a rectangle is still sampled and
  applied), and an unfocused editor with no resize pending (nothing but the focus state
  is applied).
\<close>

theorem missing_coords_skipped_witness:
  "(let s = (new_comet 0 0)\<lparr>initialized := True, targetX := 100, targetY := 50, currentHeight := 20\<rparr>;
        m = measure_read s True \<lparr>rect_left = 10, rect_top = 10, rect_width = 300, rect_height = 150\<rparr> None;
        s' = measure_write 0 0 1 m s
    in m_coords m = None \<and> targetX s' = 100 \<and> targetY s' = 50 \<and> currentHeight s' = 20
       \<and> initialized s' \<and> hasFocus s' \<and> \<not> needsResize s')
   \<and> (let s = (new_comet 0 0)\<lparr>needsResize := False\<rparr>;
        m = measure_read s False \<lparr>rect_left = 10, rect_top = 10, rect_width = 300, rect_height = 150\<rparr>
              (Some \<lparr>pos_left = 20, pos_top = 30, pos_bottom = 48\<rparr>);
        s' = measure_write 0 0 1 m s
    in m_coords m = None \<and> m_rect m = None \<and> targetX s' = 0 \<and> targetY s' = 0
       \<and> currentHeight s' = 0 \<and> \<not> initialized s' \<and> \<not> hasFocus s')"
  using missing_coords_skipped [of
      "(new_comet 0 0)\<lparr>initialized := True, targetX := 100, targetY := 50, currentHeight := 20\<rparr>"
      True "\<lparr>rect_left = 10, rect_top = 10, rect_width = 300, rect_height = 150\<rparr>"
      "Some \<lparr>pos_left = 20, pos_top = 30, pos_bottom = 48\<rparr>"
      "measure_read ((new_comet 0 0)\<lparr>initialized := True, targetX := 100, targetY := 50, currentHeight := 20\<rparr>)
         True \<lparr>rect_left = 10, rect_top = 10, rect_width = 300, rect_height = 150\<rparr> None" 0 0 1]
    missing_coords_skipped [of "(new_comet 0 0)\<lparr>needsResize := False\<rparr>"
      False "\<lparr>rect_left = 10, rect_top = 10, rect_width = 300, rect_height = 150\<rparr>"
      "Some \<lparr>pos_left = 20, pos_top = 30, pos_bottom = 48\<rparr>"
      "measure_read ((new_comet 0 0)\<lparr>needsResize := False\<rparr>) False
         \<lparr>rect_left = 10, rect_top = 10, rect_width = 300, rect_height = 150\<rparr>
         (Some \<lparr>pos_left = 20, pos_top = 30, pos_bottom = 48\<rparr>)" 0 0 1]
  by (simp add: new_comet_def measure_read_def Let_def)

text \<open>
  Claim C9. \<open>resizeCanvas\<close> does nothing when there is no canvas. With a canvas, let
  \<open>dpr\<close> be the device pixel ratio (\<open>1\<close> when the browser reports \<open>0\<close>) and \<open>w\<close>, \<open>h\<close>
  the scaled dimensions \<open>max(1, floor(rect.width * dpr))\<close> and
  \<open>max(1, floor(rect.height * dpr))\<close>. When the backing store already is \<open>w\<close> by \<open>h\<close> the
  whole state is unchanged. Otherwise the backing store becomes \<open>w\<close> by \<open>h\<close>, both at
  least \<open>1\<close>, the CSS size becomes the rectangle's size in pixels, the transform of the
  context becomes the uniform scale by \<open>dpr\<close>, and nothing else changes.
\<close>

theorem resize_noop_when_matching:
  "(canvas s = None \<longrightarrow> resizeCanvas devicePixelRatio rect s = s)
   \<and> (canvas s = Some cv \<longrightarrow>
        (let dpr = (if devicePixelRatio = 0 then 1 else devicePixelRatio);
             w = max 1 \<lfloor>rect_width rect * dpr\<rfloor>;
             h = max 1 \<lfloor>rect_height rect * dpr\<rfloor>;
             s' = resizeCanvas devicePixelRatio rect s
         in (cv_width cv = w \<and> cv_height cv = h \<longrightarrow> s' = s)
            \<and> (\<not> (cv_width cv = w \<and> cv_height cv = h) \<longrightarrow>
                 canvas s' = Some (cv\<lparr>cv_width := w, cv_height := h,
                                       style_width := Px (rect_width rect),
                                       style_height := Px (rect_height rect)\<rparr>)
                 \<and> 1 \<le> w \<and> 1 \<le> h
                 \<and> ctx s' = map_option (\<lambda>c. c\<lparr>ctx_transform := (dpr, 0, 0, dpr, 0, 0)\<rparr>) (ctx s)
                 \<and> s' = s\<lparr>canvas := canvas s', ctx := ctx s'\<rparr>)))"
  by (simp add: resizeCanvas_def or_default_def Let_def)

text \<open>
  A freshly enabled instance has a 300 by 150 canvas. A rectangle of 300.5 by 150 at
  ratio \<open>1\<close> scales to the same backing size: nothing changes. A rectangle of 100.5 by
  0.2 at ratio \<open>2\<close> gives a 201 by 1 backing store. Without a canvas nothing happens.
\<close>

theorem resize_noop_when_matching_witness:
  "canvas (enable 1 (new_comet 0 0)) = Some createCanvas
   \<and> resizeCanvas 1 \<lparr>rect_left = 0, rect_top = 0, rect_width = 300.5, rect_height = 150\<rparr>
        (enable 1 (new_comet 0 0)) = enable 1 (new_comet 0 0)
   \<and> canvas (resizeCanvas 2 \<lparr>rect_left = 0, rect_top = 0, rect_width = 100.5, rect_height = 0.2\<rparr>
        (enable 1 (new_comet 0 0)))
      = Some \<lparr>cv_width = 201, cv_height = 1, style_width = Px 100.5, style_height = Px 0.2,
              className = ''''\<rparr>
   \<and> ctx (resizeCanvas 2 \<lparr>rect_left = 0, rect_top = 0, rect_width = 100.5, rect_height = 0.2\<rparr>
        (enable 1 (new_comet 0 0)))
      = Some \<lparr>ctx_transform = (2, 0, 0, 2, 0, 0)\<rparr>
   \<and> resizeCanvas 2 \<lparr>rect_left = 0, rect_top = 0, rect_width = 100.5, rect_height = 0.2\<rparr>
        (new_comet 0 0) = new_comet 0 0"
  using resize_noop_when_matching [of "enable 1 (new_comet 0 0)" 1
      "\<lparr>rect_left = 0, rect_top = 0, rect_width = 300.5, rect_height = 150\<rparr>" createCanvas]
    resize_noop_when_matching [of "enable 1 (new_comet 0 0)" 2
      "\<lparr>rect_left = 0, rect_top = 0, rect_width = 100.5, rect_height = 0.2\<rparr>" createCanvas]
    resize_noop_when_matching [of "new_comet 0 0" 2
      "\<lparr>rect_left = 0, rect_top = 0, rect_width = 100.5, rect_height = 0.2\<rparr>" createCanvas]
  by (simp add: new_comet_def enable_def scheduleMeasure_def createCanvas_def getContext_def Let_def)

text \<open>
  Claim C10. While the instance is not initialised, a scroll event returns the state as
  it is, for both effects: \<open>current\<close>, \<open>target\<close>, the buffered points and the scroll
  baseline are untouched. The first measurement with coordinates that follows sets the
  baseline to the scroll offsets of its own moment, so the scrolling that happened
  before leaves no trace.
\<close>

theorem scroll_before_initialization:
  fixes s :: comet and b :: blink
  assumes "\<not> initialized s" and "\<not> initialized b"
  shows "onScroll comet_onScrollChange scrollTop scrollLeft s = s
     \<and> onScroll blink_onScrollChange scrollTop scrollLeft b = b
     \<and> (m_coords m = Some c \<longrightarrow>
          (let s' = measure_write scrollTop' scrollLeft' dpr m
                      (onScroll comet_onScrollChange scrollTop scrollLeft s);
               b' = measure_write scrollTop' scrollLeft' dpr m
                      (onScroll blink_onScrollChange scrollTop scrollLeft b)
           in lastScrollTop s' = scrollTop' \<and> lastScrollLeft s' = scrollLeft'
              \<and> currentX s' = c_x c \<and> currentY s' = c_y c
              \<and> lastScrollTop b' = scrollTop' \<and> lastScrollLeft b' = scrollLeft'
              \<and> currentX b' = c_x c \<and> currentY b' = c_y c))"
  using assms
  by (simp add: onScroll_def measure_write_def Let_def resizeCanvas_frame split: option.splits)

text \<open>
  A fresh comet and a fresh blink instance scrolled to \<open>(50, 20)\<close> before the first
  sample, which arrives at those offsets.
\<close>

theorem scroll_before_initialization_witness:
  "\<not> initialized (new_comet 0 0) \<and> \<not> initialized (new_blink 0 0)
   \<and> onScroll comet_onScrollChange 50 20 (new_comet 0 0) = new_comet 0 0
   \<and> onScroll blink_onScrollChange 50 20 (new_blink 0 0) = new_blink 0 0
   \<and> lastScrollTop (measure_write 50 20 1
         \<lparr>m_rect = None, m_coords = Some \<lparr>c_x = 100, c_y = 50, c_height = 20\<rparr>, m_hasFocus = True\<rparr>
         (onScroll comet_onScrollChange 50 20 (new_comet 0 0))) = 50
   \<and> currentY (measure_write 50 20 1
         \<lparr>m_rect = None, m_coords = Some \<lparr>c_x = 100, c_y = 50, c_height = 20\<rparr>, m_hasFocus = True\<rparr>
         (onScroll blink_onScrollChange 50 20 (new_blink 0 0))) = 50"
proof -
  have c: "\<not> initialized (new_comet 0 0)"
    by (simp add: new_comet_def)
  have b: "\<not> initialized (new_blink 0 0)"
    by (simp add: new_blink_def)
  show ?thesis
    using c b scroll_before_initialization [OF c b, of 50 20
      "\<lparr>m_rect = None, m_coords = Some \<lparr>c_x = 100, c_y = 50, c_height = 20\<rparr>, m_hasFocus = True\<rparr>"
      "\<lparr>c_x = 100, c_y = 50, c_height = 20\<rparr>" 50 20 1]
    by (auto simp add: Let_def)
qed

end
